theory Spec2Isabelle
  imports Main
begin

section \<open>JavaScript values used by the gateway\<close>

text \<open>
  The repository holds three multi-tenant variants of the same gateway. Definitions
  carry a suffix naming the file they embed:
  \<^item> \<open>_srv\<close>: \<^verbatim>\<open>src/server.ts\<close>;
  \<^item> \<open>_p0\<close>: the multi-tenant module of \<^verbatim>\<open>src/unnamed/part_000\<close> (lines 175-398);
  \<^item> \<open>_p1\<close>: \<^verbatim>\<open>src/unnamed/part_001\<close>.

  A value that may be \<^verbatim>\<open>undefined\<close> is a \<open>string option\<close>. JavaScript treats
  \<^verbatim>\<open>undefined\<close> and the empty string as false in a condition.
\<close>

definition truthy :: "string option \<Rightarrow> bool" where
  "truthy v = (case v of None \<Rightarrow> False | Some s \<Rightarrow> s \<noteq> [])"

text \<open>\<^verbatim>\<open>a || b\<close> on such values.\<close>

definition js_or :: "string option \<Rightarrow> string option \<Rightarrow> string option" where
  "js_or a b = (if truthy a then a else b)"

text \<open>\<^verbatim>\<open>s.split(c)\<close> for a one-character separator.\<close>

fun js_split :: "char \<Rightarrow> string \<Rightarrow> string list" where
  "js_split c [] = [[]]"
| "js_split c (x # xs) =
     (if x = c then [] # js_split c xs
      else (case js_split c xs of [] \<Rightarrow> [[x]] | y # ys \<Rightarrow> (x # y) # ys))"

text \<open>\<^verbatim>\<open>s.split(c)[0]\<close>.\<close>

definition split0 :: "char \<Rightarrow> string \<Rightarrow> string" where
  "split0 c s = (case js_split c s of [] \<Rightarrow> [] | y # ys \<Rightarrow> y)"

text \<open>\<^verbatim>\<open>s.includes(pat)\<close>.\<close>

fun js_includes :: "string \<Rightarrow> string \<Rightarrow> bool" where
  "js_includes [] pat = (pat = [])"
| "js_includes (x # xs) pat = (take (length pat) (x # xs) = pat \<or> js_includes xs pat)"

text \<open>\<^verbatim>\<open>phone.replace(/\D/g, '')\<close>: the decimal digits of the string.\<close>

definition digits :: "string \<Rightarrow> string" where
  "digits s = filter (\<lambda>c. c \<in> set ''0123456789'') s"

datatype exn = TypeError | TransportError | FsError | NetworkError

section \<open>The session registry, the pairing cache and the transport objects\<close>

text \<open>
  A transport object (the value \<^verbatim>\<open>makeWASocket\<close> returns) is a mutable object the
  maps refer to. The fields are the ones the source reads: \<^verbatim>\<open>sock.user\<close> (its
  \<^verbatim>\<open>id\<close>), \<^verbatim>\<open>sock.destroyed\<close> and \<^verbatim>\<open>sock.ws.isClosed\<close>. \<open>owner\<close> is the
  \<^verbatim>\<open>instanceId\<close> the handlers registered on the object close over.
\<close>

record sock =
  owner :: string
  user :: "string option"
  destroyed :: bool
  isClosed :: bool

text \<open>
  Commands issued to a transport object, in the order they are issued. What a command
  does inside the transport is not part of the gateway; whether the call throws is an
  argument of the handler that makes it.
\<close>

datatype tcall = SendMessage nat string "string option" | Logout nat | End nat

text \<open>
  The process state: the two global maps, the transport objects created so far
  (\<open>socks st h\<close> for \<open>h < nsocks st\<close>), the session directories below
  \<^verbatim>\<open>auth_info_baileys\<close> that exist, the reconnects waiting in \<^verbatim>\<open>setTimeout\<close>, and
  the transport commands issued.
\<close>

record state =
  sessions :: "string \<rightharpoonup> nat"
  qrCodes :: "string \<rightharpoonup> string"
  socks :: "nat \<Rightarrow> sock"
  nsocks :: nat
  dirs :: "string set"
  timers :: "string list"
  tcalls :: "tcall list"

definition new_sock :: "string \<Rightarrow> sock" where
  "new_sock instanceId = \<lparr>owner = instanceId, user = None, destroyed = False, isClosed = False\<rparr>"

definition init :: state where
  "init = \<lparr>sessions = Map.empty, qrCodes = Map.empty, socks = (\<lambda>h. new_sock []),
           nsocks = 0, dirs = {}, timers = [], tcalls = []\<rparr>"

text \<open>
  \<^verbatim>\<open>path.join('auth_info_baileys', instanceId)\<close> for an id that is one plain path
  segment. \<^verbatim>\<open>path.join\<close> also normalises \<^verbatim>\<open>.\<close>, \<^verbatim>\<open>..\<close> and repeated
  separators; ids with such parts are outside the model.
\<close>

definition sessionPath :: "string \<Rightarrow> string" where
  "sessionPath instanceId = ''auth_info_baileys/'' @ instanceId"

text \<open>
  \<^verbatim>\<open>fs.rmSync(p, { recursive: true, force: true })\<close>. With \<^verbatim>\<open>force\<close> a missing path
  is no error; removing an existing directory can still fail, which the caller of the
  model decides through \<open>rm_throws\<close>.
\<close>

definition rmSync :: "bool \<Rightarrow> state \<Rightarrow> string \<Rightarrow> exn + state" where
  "rmSync rm_throws st p =
     (if p \<in> dirs st \<and> rm_throws then Inl FsError
      else Inr (st\<lparr>dirs := dirs st - {p}\<rparr>))"

section \<open>startSession\<close>

text \<open>
  \<^verbatim>\<open>startSession\<close> is an \<^verbatim>\<open>async\<close> function. It runs without interruption up to its
  first \<^verbatim>\<open>await\<close> (\<^verbatim>\<open>useMultiFileAuthState\<close>), and again from there to its
  \<^verbatim>\<open>return\<close>. \<open>begin\<close> is the first segment: the guard and the creation of the
  directory. \<open>resume\<close> is the second: the new transport object and
  \<^verbatim>\<open>sessions.set\<close>. A call that nothing interleaves with is \<open>begin\<close> followed by
  \<open>resume\<close>.
\<close>

datatype begun = Returned "nat option" | Awaiting

text \<open>\<^verbatim>\<open>server.ts\<close>, line 25: the session the guard finds, if any.\<close>

definition live_srv :: "state \<Rightarrow> string \<Rightarrow> nat option" where
  "live_srv st instanceId =
     (case sessions st instanceId of
        None \<Rightarrow> None
      | Some h \<Rightarrow> if destroyed (socks st h) then None else Some h)"

definition startSession_begin_srv :: "state \<Rightarrow> string \<Rightarrow> begun \<times> state" where
  "startSession_begin_srv st instanceId =
     (case live_srv st instanceId of
        Some h \<Rightarrow> (Returned (Some h), st)
      | None \<Rightarrow> (Awaiting, st\<lparr>dirs := insert (sessionPath instanceId) (dirs st)\<rparr>))"

text \<open>The second segment is the same in the three variants.\<close>

definition startSession_resume :: "state \<Rightarrow> string \<Rightarrow> nat \<times> state" where
  "startSession_resume st instanceId =
     (let h = nsocks st in
      (h, st\<lparr>socks := (socks st)(h := new_sock instanceId),
             nsocks := Suc h,
             sessions := (sessions st)(instanceId \<mapsto> h)\<rparr>))"

definition startSession_srv :: "state \<Rightarrow> string \<Rightarrow> nat option \<times> state" where
  "startSession_srv st instanceId =
     (case startSession_begin_srv st instanceId of
        (Returned r, st') \<Rightarrow> (r, st')
      | (Awaiting, st') \<Rightarrow>
          (case startSession_resume st' instanceId of (h, st'') \<Rightarrow> (Some h, st'')))"

text \<open>\<^verbatim>\<open>part_000\<close> and \<^verbatim>\<open>part_001\<close> test \<^verbatim>\<open>ws.isClosed\<close> instead.\<close>

definition live_ws :: "state \<Rightarrow> string \<Rightarrow> nat option" where
  "live_ws st instanceId =
     (case sessions st instanceId of
        None \<Rightarrow> None
      | Some h \<Rightarrow> if isClosed (socks st h) then None else Some h)"

definition startSession_begin_p1 :: "state \<Rightarrow> string \<Rightarrow> begun \<times> state" where
  "startSession_begin_p1 st instanceId =
     (case live_ws st instanceId of
        Some h \<Rightarrow> (Returned (Some h), st)
      | None \<Rightarrow> (Awaiting, st\<lparr>dirs := insert (sessionPath instanceId) (dirs st)\<rparr>))"

definition startSession_p1 :: "state \<Rightarrow> string \<Rightarrow> nat option \<times> state" where
  "startSession_p1 st instanceId =
     (case startSession_begin_p1 st instanceId of
        (Returned r, st') \<Rightarrow> (r, st')
      | (Awaiting, st') \<Rightarrow>
          (case startSession_resume st' instanceId of (h, st'') \<Rightarrow> (Some h, st'')))"

text \<open>
  \<^verbatim>\<open>part_000\<close>, line 205, returns \<^verbatim>\<open>undefined\<close> for the two reserved names before
  anything else.
\<close>

definition startSession_begin_p0 :: "state \<Rightarrow> string \<Rightarrow> begun \<times> state" where
  "startSession_begin_p0 st instanceId =
     (if instanceId = ''lost+found'' \<or> instanceId = ''.DS_Store'' then (Returned None, st)
      else startSession_begin_p1 st instanceId)"

definition startSession_p0 :: "state \<Rightarrow> string \<Rightarrow> nat option \<times> state" where
  "startSession_p0 st instanceId =
     (case startSession_begin_p0 st instanceId of
        (Returned r, st') \<Rightarrow> (r, st')
      | (Awaiting, st') \<Rightarrow>
          (case startSession_resume st' instanceId of (h, st'') \<Rightarrow> (Some h, st'')))"

text \<open>
  Overlapping calls. A scheduler step either starts a call, which runs its first
  segment and is then suspended unless it returned, or lets a suspended call run its
  second segment. \<open>waiting\<close> lists the suspended calls.
\<close>

datatype step = Begin string | Resume string

fun sched_srv :: "step \<Rightarrow> state \<times> string list \<Rightarrow> state \<times> string list" where
  "sched_srv (Begin instanceId) (st, waiting) =
     (case startSession_begin_srv st instanceId of
        (Returned r, st') \<Rightarrow> (st', waiting)
      | (Awaiting, st') \<Rightarrow> (st', waiting @ [instanceId]))"
| "sched_srv (Resume instanceId) (st, waiting) =
     (if instanceId \<in> set waiting
      then (snd (startSession_resume st instanceId), remove1 instanceId waiting)
      else (st, waiting))"

fun sched_p0 :: "step \<Rightarrow> state \<times> string list \<Rightarrow> state \<times> string list" where
  "sched_p0 (Begin instanceId) (st, waiting) =
     (case startSession_begin_p0 st instanceId of
        (Returned r, st') \<Rightarrow> (st', waiting)
      | (Awaiting, st') \<Rightarrow> (st', waiting @ [instanceId]))"
| "sched_p0 (Resume instanceId) (st, waiting) =
     (if instanceId \<in> set waiting
      then (snd (startSession_resume st instanceId), remove1 instanceId waiting)
      else (st, waiting))"

text \<open>The transport objects of a tenant that each variant's guard counts as live.\<close>

definition live_handles_srv :: "state \<Rightarrow> string \<Rightarrow> nat list" where
  "live_handles_srv st instanceId =
     filter (\<lambda>h. owner (socks st h) = instanceId \<and> \<not> destroyed (socks st h)) [0..<nsocks st]"

definition live_handles_ws :: "state \<Rightarrow> string \<Rightarrow> nat list" where
  "live_handles_ws st instanceId =
     filter (\<lambda>h. owner (socks st h) = instanceId \<and> \<not> isClosed (socks st h)) [0..<nsocks st]"

section \<open>The connection.update handler\<close>

text \<open>
  The fields the handler reads of an update: \<^verbatim>\<open>connection\<close>,
  \<^verbatim>\<open>lastDisconnect?.error?.output?.statusCode\<close> and \<^verbatim>\<open>qr\<close>. The constant
  \<^verbatim>\<open>DisconnectReason.loggedOut\<close> belongs to the transport library and is the parameter
  \<open>loggedOut\<close>.
\<close>

record update =
  connection :: "string option"
  statusCode :: "nat option"
  qr :: "string option"

text \<open>\<^verbatim>\<open>if (qr) qrCodes.set(instanceId, qr)\<close>.\<close>

definition store_qr :: "state \<Rightarrow> string \<Rightarrow> update \<Rightarrow> state" where
  "store_qr st instanceId upd =
     (case qr upd of
        None \<Rightarrow> st
      | Some q \<Rightarrow> if q = [] then st else st\<lparr>qrCodes := (qrCodes st)(instanceId \<mapsto> q)\<rparr>)"

definition forget :: "state \<Rightarrow> string \<Rightarrow> state" where
  "forget st instanceId =
     st\<lparr>sessions := (sessions st)(instanceId := None),
        qrCodes := (qrCodes st)(instanceId := None)\<rparr>"

text \<open>
  \<^verbatim>\<open>server.ts\<close>, lines 58-82. The call of \<^verbatim>\<open>startSession\<close> is not awaited; the
  model runs it with nothing interleaved. Its guard reads \<^verbatim>\<open>destroyed\<close> of the
  registered object, which no line of the file sets, on a close or otherwise. On a
  logged-out close the directory is kept (line 76: deleting it is left as an option).
\<close>

definition connection_update_srv :: "nat \<Rightarrow> state \<Rightarrow> string \<Rightarrow> update \<Rightarrow> state" where
  "connection_update_srv loggedOut st instanceId upd =
     (let st1 = store_qr st instanceId upd in
      if connection upd = Some ''close'' then
        (if statusCode upd \<noteq> Some loggedOut then snd (startSession_srv st1 instanceId)
         else forget st1 instanceId)
      else if connection upd = Some ''open'' then
        st1\<lparr>qrCodes := (qrCodes st1)(instanceId := None)\<rparr>
      else st1)"

text \<open>
  \<^verbatim>\<open>part_001\<close>, lines 60-85. The reconnect goes through \<^verbatim>\<open>setTimeout\<close>; a
  logged-out close also removes the directory. The handler is \<^verbatim>\<open>async\<close>: an error
  of \<^verbatim>\<open>fs.rmSync\<close> leaves it as a rejection (\<open>Some\<close>).
\<close>

definition connection_update_p1 ::
  "nat \<Rightarrow> bool \<Rightarrow> state \<Rightarrow> string \<Rightarrow> update \<Rightarrow> exn option \<times> state" where
  "connection_update_p1 loggedOut rm_throws st instanceId upd =
     (let st1 = store_qr st instanceId upd in
      if connection upd = Some ''close'' then
        (if statusCode upd \<noteq> Some loggedOut
         then (None, st1\<lparr>timers := timers st1 @ [instanceId]\<rparr>)
         else
           (let st2 = forget st1 instanceId in
            if sessionPath instanceId \<in> dirs st2 then
              (case rmSync rm_throws st2 (sessionPath instanceId) of
                 Inl e \<Rightarrow> (Some e, st2)
               | Inr st3 \<Rightarrow> (None, st3))
            else (None, st2)))
      else if connection upd = Some ''open'' then
        (None, st1\<lparr>qrCodes := (qrCodes st1)(instanceId := None)\<rparr>)
      else (None, st1))"

text \<open>The oldest waiting timer fires: \<^verbatim>\<open>() => startSession(instanceId)\<close>.\<close>

definition timer_fires_p1 :: "state \<Rightarrow> state" where
  "timer_fires_p1 st =
     (case timers st of
        [] \<Rightarrow> st
      | instanceId # rest \<Rightarrow> snd (startSession_p1 (st\<lparr>timers := rest\<rparr>) instanceId))"

section \<open>The messages.upsert handler\<close>

text \<open>
  Of a message the handlers read \<^verbatim>\<open>key.fromMe\<close>, \<^verbatim>\<open>key.id\<close>, \<^verbatim>\<open>key.remoteJid\<close>,
  \<^verbatim>\<open>key.participant\<close>, \<^verbatim>\<open>message?.conversation\<close> and
  \<^verbatim>\<open>message?.extendedTextMessage?.text\<close>. \<^verbatim>\<open>remoteJid\<close> is a string, as the
  handlers take it to be when they call \<^verbatim>\<open>split\<close> on it.
\<close>

record content =
  conversation :: "string option"
  extendedTextMessage_text :: "string option"

record msg =
  fromMe :: bool
  key_id :: "string option"
  remoteJid :: string
  participant :: "string option"
  message :: "content option"

record upsert =
  messages :: "msg list"
  utype :: string

text \<open>The object posted to the webhook; a field a variant does not send is \<open>None\<close>.\<close>

record payload =
  p_event :: string
  p_instanceId :: string
  p_connectedPhone :: "string option"
  p_messageId :: "string option"
  p_sender :: "string option"
  p_rawId :: "string option"
  p_msgContent :: "string option"

text \<open>The webhook calls attempted, in order, and the number of errors logged.\<close>

record outbox =
  posts :: "payload list"
  console_errors :: nat

text \<open>
  \<^verbatim>\<open>axios.post(WEBHOOK_URL, payload)\<close>. \<open>fails n\<close> says whether the call number
  \<open>n\<close> (counted from 0) throws.
\<close>

definition axios_post :: "(nat \<Rightarrow> bool) \<Rightarrow> outbox \<Rightarrow> payload \<Rightarrow> (exn + unit) \<times> outbox" where
  "axios_post fails w p =
     (if fails (length (posts w)) then Inl NetworkError else Inr (),
      w\<lparr>posts := posts w @ [p]\<rparr>)"

text \<open>\<^verbatim>\<open>msg.message?.conversation || msg.message?.extendedTextMessage?.text\<close>.\<close>

definition msgContent :: "msg \<Rightarrow> string option" where
  "msgContent m =
     (case message m of
        None \<Rightarrow> None
      | Some c \<Rightarrow> js_or (conversation c) (extendedTextMessage_text c))"

text \<open>\<^verbatim>\<open>sock?.user?.id?.split(':')[0]\<close>.\<close>

definition connectedPhone :: "sock \<Rightarrow> string option" where
  "connectedPhone s = map_option (split0 CHR '':'') (user s)"

text \<open>\<^verbatim>\<open>server.ts\<close>, lines 85-107.\<close>

definition payload_srv :: "string \<Rightarrow> sock \<Rightarrow> msg \<Rightarrow> payload" where
  "payload_srv instanceId s m =
     \<lparr>p_event = ''webhookReceived'', p_instanceId = instanceId,
      p_connectedPhone = connectedPhone s, p_messageId = key_id m,
      p_sender = Some (split0 CHR ''@'' (remoteJid m)), p_rawId = None,
      p_msgContent = msgContent m\<rparr>"

fun loop_srv ::
  "string option \<Rightarrow> string \<Rightarrow> sock \<Rightarrow> (nat \<Rightarrow> bool) \<Rightarrow> msg list \<Rightarrow> outbox \<Rightarrow> outbox" where
  "loop_srv url instanceId s fails [] w = w"
| "loop_srv url instanceId s fails (m # ms) w =
     (if \<not> fromMe m \<and> truthy url then
        (case axios_post fails w (payload_srv instanceId s m) of
           (Inl e, w') \<Rightarrow>
             loop_srv url instanceId s fails ms (w'\<lparr>console_errors := Suc (console_errors w')\<rparr>)
         | (Inr u, w') \<Rightarrow> loop_srv url instanceId s fails ms w')
      else loop_srv url instanceId s fails ms w)"

definition messages_upsert_srv ::
  "string option \<Rightarrow> string \<Rightarrow> sock \<Rightarrow> (nat \<Rightarrow> bool) \<Rightarrow> upsert \<Rightarrow> outbox \<Rightarrow> outbox" where
  "messages_upsert_srv url instanceId s fails ev w =
     (if utype ev = ''notify'' then loop_srv url instanceId s fails (messages ev) w else w)"

text \<open>
  \<^verbatim>\<open>part_000\<close>, lines 262-305: the sender is taken from \<^verbatim>\<open>participant\<close> for an
  \<^verbatim>\<open>@lid\<close> address, and a message without text is skipped (\<^verbatim>\<open>continue\<close>).
\<close>

definition senderNumber :: "msg \<Rightarrow> string" where
  "senderNumber m =
     (case participant m of
        None \<Rightarrow> split0 CHR ''@'' (remoteJid m)
      | Some p \<Rightarrow>
          if js_includes (remoteJid m) ''@lid'' \<and> p \<noteq> [] then split0 CHR ''@'' p
          else split0 CHR ''@'' (remoteJid m))"

definition payload_p0 :: "string \<Rightarrow> sock \<Rightarrow> msg \<Rightarrow> payload" where
  "payload_p0 instanceId s m =
     \<lparr>p_event = ''webhookReceived'', p_instanceId = instanceId,
      p_connectedPhone = connectedPhone s, p_messageId = None,
      p_sender = Some (senderNumber m), p_rawId = Some (remoteJid m),
      p_msgContent = msgContent m\<rparr>"

fun loop_p0 ::
  "string option \<Rightarrow> string \<Rightarrow> sock \<Rightarrow> (nat \<Rightarrow> bool) \<Rightarrow> msg list \<Rightarrow> outbox \<Rightarrow> outbox" where
  "loop_p0 url instanceId s fails [] w = w"
| "loop_p0 url instanceId s fails (m # ms) w =
     (if \<not> fromMe m \<and> truthy url then
        (if \<not> truthy (p_msgContent (payload_p0 instanceId s m))
         then loop_p0 url instanceId s fails ms w
         else
           (case axios_post fails w (payload_p0 instanceId s m) of
              (Inl e, w') \<Rightarrow>
                loop_p0 url instanceId s fails ms (w'\<lparr>console_errors := Suc (console_errors w')\<rparr>)
            | (Inr u, w') \<Rightarrow> loop_p0 url instanceId s fails ms w'))
      else loop_p0 url instanceId s fails ms w)"

definition messages_upsert_p0 ::
  "string option \<Rightarrow> string \<Rightarrow> sock \<Rightarrow> (nat \<Rightarrow> bool) \<Rightarrow> upsert \<Rightarrow> outbox \<Rightarrow> outbox" where
  "messages_upsert_p0 url instanceId s fails ev w =
     (if utype ev = ''notify'' then loop_p0 url instanceId s fails (messages ev) w else w)"

text \<open>\<^verbatim>\<open>part_001\<close>, lines 88-105: the \<^verbatim>\<open>catch\<close> block is empty.\<close>

definition payload_p1 :: "string \<Rightarrow> sock \<Rightarrow> msg \<Rightarrow> payload" where
  "payload_p1 instanceId s m =
     \<lparr>p_event = ''webhookReceived'', p_instanceId = instanceId,
      p_connectedPhone = connectedPhone s, p_messageId = None,
      p_sender = None, p_rawId = None,
      p_msgContent = msgContent m\<rparr>"

fun loop_p1 ::
  "string option \<Rightarrow> string \<Rightarrow> sock \<Rightarrow> (nat \<Rightarrow> bool) \<Rightarrow> msg list \<Rightarrow> outbox \<Rightarrow> outbox" where
  "loop_p1 url instanceId s fails [] w = w"
| "loop_p1 url instanceId s fails (m # ms) w =
     (if \<not> fromMe m \<and> truthy url then
        (case axios_post fails w (payload_p1 instanceId s m) of
           (Inl e, w') \<Rightarrow> loop_p1 url instanceId s fails ms w'
         | (Inr u, w') \<Rightarrow> loop_p1 url instanceId s fails ms w')
      else loop_p1 url instanceId s fails ms w)"

definition messages_upsert_p1 ::
  "string option \<Rightarrow> string \<Rightarrow> sock \<Rightarrow> (nat \<Rightarrow> bool) \<Rightarrow> upsert \<Rightarrow> outbox \<Rightarrow> outbox" where
  "messages_upsert_p1 url instanceId s fails ev w =
     (if utype ev = ''notify'' then loop_p1 url instanceId s fails (messages ev) w else w)"

text \<open>
  A sequence of events, each delivered to the handler of the transport object that
  emitted it (its tenant id and the object as the handler's closure holds them).
\<close>

fun deliver_srv ::
  "string option \<Rightarrow> (nat \<Rightarrow> bool) \<Rightarrow> (string \<times> sock \<times> upsert) list \<Rightarrow> outbox \<Rightarrow> outbox" where
  "deliver_srv url fails [] w = w"
| "deliver_srv url fails ((instanceId, s, ev) # evs) w =
     deliver_srv url fails evs (messages_upsert_srv url instanceId s fails ev w)"

fun deliver_p1 ::
  "string option \<Rightarrow> (nat \<Rightarrow> bool) \<Rightarrow> (string \<times> sock \<times> upsert) list \<Rightarrow> outbox \<Rightarrow> outbox" where
  "deliver_p1 url fails [] w = w"
| "deliver_p1 url fails ((instanceId, s, ev) # evs) w =
     deliver_p1 url fails evs (messages_upsert_p1 url instanceId s fails ev w)"

section \<open>The HTTP handlers\<close>

text \<open>
  Of a request the handlers read \<^verbatim>\<open>req.query.instanceId\<close> and, of \<^verbatim>\<open>req.body\<close>,
  \<^verbatim>\<open>instanceId\<close>, \<^verbatim>\<open>phone\<close> and \<^verbatim>\<open>message\<close>. A handler either sends a response
  or an exception escapes it (\<open>Inl\<close>); the state is the one it leaves behind either
  way. The message texts are written without their diacritics.
\<close>

record request =
  query_instanceId :: "string option"
  body_instanceId :: "string option"
  body_phone :: "string option"
  body_message :: "string option"

datatype jv = JBool bool | JStr string

datatype body = Json "(string \<times> jv) list" | Text string

record response =
  status :: nat
  res_body :: body

definition json :: "nat \<Rightarrow> (string \<times> jv) list \<Rightarrow> response" where
  "json code kvs = \<lparr>status = code, res_body = Json kvs\<rparr>"

text \<open>
  \<^verbatim>\<open>server.ts\<close>, lines 168-200. \<open>sent\<close> is what \<^verbatim>\<open>sock.sendMessage\<close> does when it
  is called: it throws, or returns the id of the message.
\<close>

definition send_text_srv :: "exn + string \<Rightarrow> state \<Rightarrow> request \<Rightarrow> (exn + response) \<times> state" where
  "send_text_srv sent st req =
     (case js_or (body_instanceId req) (query_instanceId req) of
        None \<Rightarrow>
          (Inr (json 404 [(''error'', JBool True),
             (''message'', JStr ''Instancia nao encontrada ou desconectada'')]), st)
      | Some targetInstance \<Rightarrow>
          (case (if targetInstance = [] then None else sessions st targetInstance) of
             None \<Rightarrow>
               (Inr (json 404 [(''error'', JBool True),
                  (''message'', JStr ''Instancia nao encontrada ou desconectada'')]), st)
           | Some h \<Rightarrow>
               if user (socks st h) = None then
                 (Inr (json 503 [(''error'', JBool True),
                    (''message'', JStr ''Instancia existe mas nao esta conectada ao WhatsApp'')]), st)
               else
                 (case body_phone req of
                    None \<Rightarrow>
                      (Inr (json 500 [(''error'', JBool True),
                         (''message'', JStr ''Erro ao enviar'')]), st)
                  | Some phone \<Rightarrow>
                      (let jid = digits phone @ ''@s.whatsapp.net'';
                           st' = st\<lparr>tcalls := tcalls st @ [SendMessage h jid (body_message req)]\<rparr>
                       in case sent of
                            Inl e \<Rightarrow>
                              (Inr (json 500 [(''error'', JBool True),
                                 (''message'', JStr ''Erro ao enviar'')]), st')
                          | Inr messageId \<Rightarrow>
                              (Inr (json 200 [(''error'', JBool False),
                                 (''instanceId'', JStr targetInstance),
                                 (''messageId'', JStr messageId)]), st')))))"

text \<open>\<^verbatim>\<open>part_001\<close>, lines 160-176: no test of \<^verbatim>\<open>sock.user\<close>.\<close>

definition send_text_p1 :: "exn + string \<Rightarrow> state \<Rightarrow> request \<Rightarrow> (exn + response) \<times> state" where
  "send_text_p1 sent st req =
     (case js_or (body_instanceId req) (query_instanceId req) of
        None \<Rightarrow>
          (Inr (json 404 [(''error'', JBool True),
             (''message'', JStr ''Instancia desconectada'')]), st)
      | Some target \<Rightarrow>
          (case (if target = [] then None else sessions st target) of
             None \<Rightarrow>
               (Inr (json 404 [(''error'', JBool True),
                  (''message'', JStr ''Instancia desconectada'')]), st)
           | Some h \<Rightarrow>
               (case body_phone req of
                  None \<Rightarrow> (Inr (json 500 [(''error'', JBool True)]), st)
                | Some phone \<Rightarrow>
                    (let jid = digits phone @ ''@s.whatsapp.net'';
                         st' = st\<lparr>tcalls := tcalls st @ [SendMessage h jid (body_message req)]\<rparr>
                     in case sent of
                          Inl e \<Rightarrow> (Inr (json 500 [(''error'', JBool True)]), st')
                        | Inr messageId \<Rightarrow>
                            (Inr (json 200 [(''error'', JBool False),
                               (''messageId'', JStr messageId)]), st')))))"

text \<open>
  \<^verbatim>\<open>server.ts\<close>, lines 218-233. \<open>logout_throws\<close> says whether the awaited
  \<^verbatim>\<open>sock.logout()\<close> throws. Nothing in the handler catches an exception.
\<close>

definition logout_srv :: "bool \<Rightarrow> bool \<Rightarrow> state \<Rightarrow> request \<Rightarrow> (exn + response) \<times> state" where
  "logout_srv logout_throws rm_throws st req =
     (case js_or (query_instanceId req) (body_instanceId req) of
        None \<Rightarrow>
          (Inr (json 200 [(''error'', JBool False), (''message'', JStr ''Sessao nao encontrada'')]), st)
      | Some instanceId \<Rightarrow>
          (case (if instanceId = [] then None else sessions st instanceId) of
             None \<Rightarrow>
               (Inr (json 200 [(''error'', JBool False),
                  (''message'', JStr ''Sessao nao encontrada'')]), st)
           | Some h \<Rightarrow>
               (let st1 = st\<lparr>tcalls := tcalls st @ [Logout h]\<rparr> in
                if logout_throws then (Inl TransportError, st1)
                else
                  (let st2 = forget st1 instanceId in
                   case rmSync rm_throws st2 (sessionPath instanceId) of
                     Inl e \<Rightarrow> (Inl e, st2)
                   | Inr st3 \<Rightarrow>
                       (Inr (json 200 [(''error'', JBool False),
                          (''message'', JStr ''Desconectado'')]), st3)))))"

text \<open>
  \<^verbatim>\<open>server.ts\<close>, lines 236-264. \<open>end_throws\<close> says whether \<^verbatim>\<open>sock.end(undefined)\<close>
  throws; the call is outside any \<^verbatim>\<open>try\<close>. The removal of the directory is inside
  one, and its failure is logged.
\<close>

definition reset_srv :: "bool \<Rightarrow> bool \<Rightarrow> state \<Rightarrow> request \<Rightarrow> (exn + response) \<times> state" where
  "reset_srv end_throws rm_throws st req =
     (case js_or (query_instanceId req) (body_instanceId req) of
        None \<Rightarrow>
          (Inr (json 400 [(''error'', JBool True), (''message'', JStr ''instanceId obrigatorio'')]), st)
      | Some instanceId \<Rightarrow>
          if instanceId = [] then
            (Inr (json 400 [(''error'', JBool True),
               (''message'', JStr ''instanceId obrigatorio'')]), st)
          else
            (case (case sessions st instanceId of
                     None \<Rightarrow> Inr st
                   | Some h \<Rightarrow>
                       (let st1 = st\<lparr>tcalls := tcalls st @ [End h]\<rparr> in
                        if end_throws then Inl st1 else Inr (forget st1 instanceId))) of
               Inl st1 \<Rightarrow> (Inl TransportError, st1)
             | Inr st2 \<Rightarrow>
                 (let st3 =
                    (if sessionPath instanceId \<in> dirs st2 then
                       (case rmSync rm_throws st2 (sessionPath instanceId) of
                          Inl e \<Rightarrow> st2
                        | Inr st' \<Rightarrow> st')
                     else st2)
                  in (Inr (json 200 [(''error'', JBool False),
                        (''message'', JStr (''Instancia '' @ instanceId @
                           '' resetada. Pode pedir novo QR Code agora.''))]), st3))))"

text \<open>
  \<^verbatim>\<open>part_001\<close>, lines 179-193. The id comes from the query only. An exception of
  \<^verbatim>\<open>end\<close> is caught and dropped; the removal of the directory is outside any
  \<^verbatim>\<open>try\<close>.
\<close>

definition reset_p1 :: "bool \<Rightarrow> bool \<Rightarrow> state \<Rightarrow> request \<Rightarrow> (exn + response) \<times> state" where
  "reset_p1 end_throws rm_throws st req =
     (case query_instanceId req of
        None \<Rightarrow> (Inr \<lparr>status = 400, res_body = Text ''Falta instanceId''\<rparr>, st)
      | Some instanceId \<Rightarrow>
          if instanceId = [] then (Inr \<lparr>status = 400, res_body = Text ''Falta instanceId''\<rparr>, st)
          else
            (let st2 =
               (case sessions st instanceId of
                  None \<Rightarrow> st
                | Some h \<Rightarrow> forget (st\<lparr>tcalls := tcalls st @ [End h]\<rparr>) instanceId)
             in
               if sessionPath instanceId \<in> dirs st2 then
                 (case rmSync rm_throws st2 (sessionPath instanceId) of
                    Inl e \<Rightarrow> (Inl e, st2)
                  | Inr st3 \<Rightarrow>
                      (Inr (json 200 [(''message'', JStr ''Resetado com sucesso.'')]), st3))
               else (Inr (json 200 [(''message'', JStr ''Resetado com sucesso.'')]), st2)))"

section \<open>Notions the properties are stated with\<close>

text \<open>The messages of an event the loop reaches the inner test for and lets through.\<close>

definition eligible :: "string option \<Rightarrow> upsert \<Rightarrow> msg list" where
  "eligible url ev =
     (if utype ev = ''notify'' \<and> truthy url then filter (\<lambda>m. \<not> fromMe m) (messages ev) else [])"

text \<open>
  The sender identity as the specification words it: the part of an address before
  \<open>@\<close>, taken from the participant when the primary address is an \<open>@lid\<close> address and
  a participant is there, and from the primary address otherwise.
\<close>

definition local_part :: "string \<Rightarrow> string" where
  "local_part a = takeWhile (\<lambda>c. c \<noteq> CHR ''@'') a"

definition sender_identity :: "msg \<Rightarrow> string" where
  "sender_identity m =
     (if js_includes (remoteJid m) ''@lid'' \<and> truthy (participant m)
      then local_part (the (participant m)) else local_part (remoteJid m))"

text \<open>The identity of a tenant as the routes read it: \<^verbatim>\<open>sessions.get(id)?.user\<close>.\<close>

definition identity :: "state \<Rightarrow> string \<Rightarrow> string option" where
  "identity st instanceId =
     (case sessions st instanceId of None \<Rightarrow> None | Some h \<Rightarrow> user (socks st h))"

text \<open>The transport fills in \<^verbatim>\<open>user\<close> of one of its objects.\<close>

definition transport_sets_user :: "state \<Rightarrow> nat \<Rightarrow> string \<Rightarrow> state" where
  "transport_sets_user st h u = st\<lparr>socks := (socks st)(h := (socks st h)\<lparr>user := Some u\<rparr>)\<rparr>"

text \<open>Every live transport object of the tenant is the one the registry holds for it.\<close>

definition registered_only_srv :: "state \<Rightarrow> string \<Rightarrow> bool" where
  "registered_only_srv st instanceId =
     list_all (\<lambda>h. sessions st instanceId = Some h) (live_handles_srv st instanceId)"

subsection \<open>Example inputs\<close>

text \<open>The state after one start request for \<open>shop-1\<close> on a fresh process.\<close>

definition started :: state where
  "started = snd (startSession_srv init ''shop-1'')"

definition req_shop :: request where
  "req_shop = \<lparr>query_instanceId = Some ''shop-1'', body_instanceId = None,
      body_phone = None, body_message = None\<rparr>"

definition close_update :: "nat option \<Rightarrow> update" where
  "close_update code = \<lparr>connection = Some ''close'', statusCode = code, qr = None\<rparr>"

definition m_text :: msg where
  "m_text = \<lparr>fromMe = False, key_id = Some ''M1'', remoteJid = ''5511999@s.whatsapp.net'',
     participant = None,
     message = Some \<lparr>conversation = Some ''oi'', extendedTextMessage_text = None\<rparr>\<rparr>"

definition m_own :: msg where
  "m_own = \<lparr>fromMe = True, key_id = Some ''M2'', remoteJid = ''5511888@s.whatsapp.net'',
     participant = None,
     message = Some \<lparr>conversation = Some ''ola'', extendedTextMessage_text = None\<rparr>\<rparr>"

definition m_lid :: msg where
  "m_lid = \<lparr>fromMe = False, key_id = Some ''M3'', remoteJid = ''99887766@lid'',
     participant = Some ''5511777@s.whatsapp.net'',
     message = Some \<lparr>conversation = None, extendedTextMessage_text = Some ''bom dia''\<rparr>\<rparr>"

definition m_image :: msg where
  "m_image = \<lparr>fromMe = False, key_id = Some ''M4'', remoteJid = ''5511999@s.whatsapp.net'',
     participant = None,
     message = Some \<lparr>conversation = None, extendedTextMessage_text = None\<rparr>\<rparr>"

definition empty_outbox :: outbox where
  "empty_outbox = \<lparr>posts = [], console_errors = 0\<rparr>"

section \<open>Facts about the helpers\<close>

lemma js_split_hd: "js_split c s = takeWhile (\<lambda>x. x \<noteq> c) s # tl (js_split c s)"
  by (induction s) (auto split: list.splits)

lemma split0_takeWhile: "split0 c s = takeWhile (\<lambda>x. x \<noteq> c) s"
  by (subst split0_def, subst js_split_hd) simp

lemma take_eq_iff_prefix: "(take (length pat) s = pat) = (\<exists>v. s = pat @ v)"
proof
  assume "take (length pat) s = pat"
  then have "s = pat @ drop (length pat) s" by (metis append_take_drop_id)
  then show "\<exists>v. s = pat @ v" ..
next
  assume "\<exists>v. s = pat @ v"
  then show "take (length pat) s = pat" by auto
qed

text \<open>\<open>js_includes\<close> is the substring test.\<close>

lemma js_includes_iff: "js_includes s pat = (\<exists>u v. s = u @ pat @ v)"
proof (induction s)
  case Nil
  show ?case by auto
next
  case (Cons x xs)
  show ?case
  proof
    assume "js_includes (x # xs) pat"
    then consider "take (length pat) (x # xs) = pat" | "js_includes xs pat" by auto
    then show "\<exists>u v. x # xs = u @ pat @ v"
    proof cases
      case 1
      then obtain v where "x # xs = pat @ v" using take_eq_iff_prefix [of pat "x # xs"] by blast
      then have "x # xs = [] @ pat @ v" by simp
      then show ?thesis by blast
    next
      case 2
      then obtain u v where "xs = u @ pat @ v" using Cons.IH by blast
      then have "x # xs = (x # u) @ pat @ v" by simp
      then show ?thesis by blast
    qed
  next
    assume "\<exists>u v. x # xs = u @ pat @ v"
    then obtain u v where uv: "x # xs = u @ pat @ v" by blast
    show "js_includes (x # xs) pat"
    proof (cases u)
      case Nil
      then have "take (length pat) (x # xs) = pat"
        using uv take_eq_iff_prefix [of pat "x # xs"] by auto
      then show ?thesis by simp
    next
      case (Cons y u')
      then have "xs = u' @ pat @ v" using uv by simp
      then have "js_includes xs pat" using Cons.IH by blast
      then show ?thesis by simp
    qed
  qed
qed

lemma started_eq:
  "started = \<lparr>sessions = [''shop-1'' \<mapsto> 0], qrCodes = Map.empty,
      socks = (\<lambda>h. new_sock [])(0 := new_sock ''shop-1''), nsocks = 1,
      dirs = {''auth_info_baileys/shop-1''}, timers = [], tcalls = []\<rparr>"
  by (simp add: started_def startSession_srv_def startSession_begin_srv_def live_srv_def
      startSession_resume_def init_def sessionPath_def Let_def)

lemma started_p1: "snd (startSession_p1 init ''shop-1'') = started"
  by (simp add: started_eq startSession_p1_def startSession_begin_p1_def live_ws_def
      startSession_resume_def init_def sessionPath_def Let_def)

lemma dirs_store_qr [simp]: "dirs (store_qr st i upd) = dirs st"
  by (simp add: store_qr_def split: option.splits)

lemma sessions_store_qr [simp]: "sessions (store_qr st i upd) = sessions st"
  by (simp add: store_qr_def split: option.splits)

lemma timers_store_qr [simp]: "timers (store_qr st i upd) = timers st"
  by (simp add: store_qr_def split: option.splits)

section \<open>Start requests\<close>

text \<open>
  A start request for a tenant whose registered object passes the guard returns that
  object and changes nothing: no directory, no transport object, no registry entry.
\<close>

lemma startSession_srv_live:
  assumes "sessions st instanceId = Some h" and "\<not> destroyed (socks st h)"
  shows "startSession_srv st instanceId = (Some h, st)"
  using assms by (simp add: startSession_srv_def startSession_begin_srv_def live_srv_def)

lemma startSession_p1_live:
  assumes "sessions st instanceId = Some h" and "\<not> isClosed (socks st h)"
  shows "startSession_p1 st instanceId = (Some h, st)"
  using assms by (simp add: startSession_p1_def startSession_begin_p1_def live_ws_def)

lemma startSession_p0_live:
  assumes "sessions st instanceId = Some h" and "\<not> isClosed (socks st h)"
    and "instanceId \<noteq> ''lost+found''" and "instanceId \<noteq> ''.DS_Store''"
  shows "startSession_p0 st instanceId = (Some h, st)"
  using assms
  by (simp add: startSession_p0_def startSession_begin_p0_def startSession_begin_p1_def
      live_ws_def)

text \<open>A start request that nothing interleaves with leaves the tenant registered.\<close>

lemma startSession_srv_registers:
  "\<exists>h. sessions (snd (startSession_srv st instanceId)) instanceId = Some h \<and>
       \<not> destroyed (socks (snd (startSession_srv st instanceId)) h)"
  by (auto simp: startSession_srv_def startSession_begin_srv_def live_srv_def
      startSession_resume_def new_sock_def Let_def split: option.splits)

lemma startSession_srv_dirs: "dirs st \<subseteq> dirs (snd (startSession_srv st instanceId))"
  by (auto simp: startSession_srv_def startSession_begin_srv_def live_srv_def
      startSession_resume_def Let_def split: option.splits)

lemma startSession_p1_registers:
  "\<exists>h. sessions (snd (startSession_p1 st instanceId)) instanceId = Some h \<and>
       \<not> isClosed (socks (snd (startSession_p1 st instanceId)) h)"
  by (auto simp: startSession_p1_def startSession_begin_p1_def live_ws_def
      startSession_resume_def new_sock_def Let_def split: option.splits)

lemma startSession_p1_dirs: "dirs st \<subseteq> dirs (snd (startSession_p1 st instanceId))"
  by (auto simp: startSession_p1_def startSession_begin_p1_def live_ws_def
      startSession_resume_def Let_def split: option.splits)

text \<open>
  Without overlap the guard does its work: if every live object of a tenant is the
  registered one before a start request, the same holds after it, and the tenant has
  at most one live object.
\<close>

lemma startSession_srv_sequential:
  assumes "registered_only_srv st instanceId"
  shows "registered_only_srv (snd (startSession_srv st instanceId)) instanceId"
proof (cases "live_srv st instanceId")
  case (Some h)
  then show ?thesis
    using assms by (simp add: startSession_srv_def startSession_begin_srv_def)
next
  case None
  have "\<not> (owner (socks st h) = instanceId \<and> \<not> destroyed (socks st h))" if "h < nsocks st" for h
  proof
    assume a: "owner (socks st h) = instanceId \<and> \<not> destroyed (socks st h)"
    then have "h \<in> set (live_handles_srv st instanceId)"
      using that by (simp add: live_handles_srv_def)
    then have "sessions st instanceId = Some h"
      using assms by (simp add: registered_only_srv_def list_all_iff)
    then have "live_srv st instanceId = Some h"
      using a by (simp add: live_srv_def)
    then show False using None by simp
  qed
  then have old: "live_handles_srv st instanceId = []"
    by (auto simp: live_handles_srv_def filter_empty_conv)
  have st': "snd (startSession_srv st instanceId) =
      st\<lparr>dirs := insert (sessionPath instanceId) (dirs st),
         socks := (socks st)(nsocks st := new_sock instanceId),
         nsocks := Suc (nsocks st),
         sessions := (sessions st)(instanceId \<mapsto> nsocks st)\<rparr>"
    using None
    by (simp add: startSession_srv_def startSession_begin_srv_def startSession_resume_def Let_def)
  have "filter (\<lambda>h. owner (((socks st)(nsocks st := new_sock instanceId)) h) = instanceId \<and>
            \<not> destroyed (((socks st)(nsocks st := new_sock instanceId)) h)) [0..<nsocks st] =
        filter (\<lambda>h. owner (socks st h) = instanceId \<and> \<not> destroyed (socks st h)) [0..<nsocks st]"
    by (rule filter_cong) auto
  then have "live_handles_srv (snd (startSession_srv st instanceId)) instanceId = [nsocks st]"
    using old by (simp add: st' live_handles_srv_def new_sock_def)
  then show ?thesis
    by (simp add: registered_only_srv_def st')
qed

lemma registered_only_srv_at_most_one:
  assumes "registered_only_srv st instanceId"
  shows "length (live_handles_srv st instanceId) \<le> 1"
proof -
  have d: "distinct (live_handles_srv st instanceId)"
    by (simp add: live_handles_srv_def)
  have "set (live_handles_srv st instanceId) \<subseteq> (case sessions st instanceId of None \<Rightarrow> {} | Some h \<Rightarrow> {h})"
    using assms by (auto simp: registered_only_srv_def list_all_iff split: option.splits)
  then have "card (set (live_handles_srv st instanceId)) \<le> 1"
  proof (cases "sessions st instanceId")
    case None
    then show ?thesis using \<open>set (live_handles_srv st instanceId) \<subseteq> _\<close> by simp
  next
    case (Some h)
    then have "set (live_handles_srv st instanceId) \<subseteq> {h}"
      using \<open>set (live_handles_srv st instanceId) \<subseteq> _\<close> by simp
    then have "card (set (live_handles_srv st instanceId)) \<le> card {h}"
      by (intro card_mono) simp_all
    then show ?thesis by simp
  qed
  then show ?thesis using d by (simp add: distinct_card)
qed

text \<open>
  C1. The claim: a start request for a live tenant is a no-op, and at every point a
  tenant has at most one live transport object. The first half holds, as shown
  above, and so does the second as long as start requests do not overlap. With
  overlap it fails: two requests for a new tenant that both pass the guard before
  either reaches \<^verbatim>\<open>sessions.set\<close> leave two live objects for it, in
  \<^verbatim>\<open>server.ts\<close> and in \<^verbatim>\<open>part_000\<close> alike.
\<close>

theorem overlapping_starts_two_live_handles:
  "live_handles_srv
     (fst (fold sched_srv [Begin ''shop-1'', Begin ''shop-1'', Resume ''shop-1'', Resume ''shop-1'']
        (init, []))) ''shop-1'' = [0, 1] \<and>
   live_handles_ws
     (fst (fold sched_p0 [Begin ''shop-1'', Begin ''shop-1'', Resume ''shop-1'', Resume ''shop-1'']
        (init, []))) ''shop-1'' = [0, 1]"
  by (simp add: live_handles_srv_def live_handles_ws_def startSession_begin_srv_def
      startSession_begin_p0_def startSession_begin_p1_def live_srv_def live_ws_def
      startSession_resume_def init_def new_sock_def Let_def upt_rec)

section \<open>Transport closes\<close>

text \<open>
  C2, the counterexample, for \<open>shop-1\<close> after its first start. In \<^verbatim>\<open>server.ts\<close> a
  close with the logged-out reason removes the registry entry and leaves the directory
  of credentials where it is. And a close with another reason (428) leaves the state
  as it was: \<^verbatim>\<open>startSession\<close> is called, its guard finds the registered object, whose
  \<^verbatim>\<open>destroyed\<close> nothing has set, and returns it, so that no transport object is
  created.
\<close>

theorem logged_out_close_srv_keeps_credentials:
  "sessions (connection_update_srv 401 started ''shop-1'' (close_update (Some 401))) ''shop-1'' = None \<and>
   sessionPath ''shop-1'' \<in> dirs (connection_update_srv 401 started ''shop-1'' (close_update (Some 401))) \<and>
   connection_update_srv 401 started ''shop-1'' (close_update (Some 428)) = started \<and>
   nsocks (connection_update_srv 401 started ''shop-1'' (close_update (Some 428))) = 1"
  by (simp add: started_eq close_update_def connection_update_srv_def store_qr_def forget_def
      sessionPath_def startSession_srv_def startSession_begin_srv_def live_srv_def new_sock_def
      Let_def)

text \<open>
  C2, as amended. On a close event whose reason is not the logged-out one, no
  directory of credentials is removed, and \<^verbatim>\<open>part_001\<close> queues the call of
  \<^verbatim>\<open>startSession\<close> for the tenant on a timer and changes neither registry nor
  directories; what the call that \<^verbatim>\<open>server.ts\<close> makes at once achieves is not
  part of the statement. On a logged-out close both remove the registry entry and the
  pairing entry; \<^verbatim>\<open>server.ts\<close> keeps the directories as they are, \<^verbatim>\<open>part_001\<close>
  removes the tenant's directory unless the removal fails.
\<close>

theorem close_event_outcomes:
  assumes "connection upd = Some ''close''"
  shows "(if statusCode upd \<noteq> Some loggedOut then
            dirs st \<subseteq> dirs (connection_update_srv loggedOut st i upd) \<and>
            fst (connection_update_p1 loggedOut rm_throws st i upd) = None \<and>
            timers (snd (connection_update_p1 loggedOut rm_throws st i upd)) = timers st @ [i] \<and>
            sessions (snd (connection_update_p1 loggedOut rm_throws st i upd)) = sessions st \<and>
            dirs (snd (connection_update_p1 loggedOut rm_throws st i upd)) = dirs st
          else
            sessions (connection_update_srv loggedOut st i upd) i = None \<and>
            qrCodes (connection_update_srv loggedOut st i upd) i = None \<and>
            dirs (connection_update_srv loggedOut st i upd) = dirs st \<and>
            sessions (snd (connection_update_p1 loggedOut rm_throws st i upd)) i = None \<and>
            qrCodes (snd (connection_update_p1 loggedOut rm_throws st i upd)) i = None \<and>
            (rm_throws \<or> sessionPath i \<notin> dirs (snd (connection_update_p1 loggedOut rm_throws st i upd))))"
proof (cases "statusCode upd \<noteq> Some loggedOut")
  case True
  have srv: "connection_update_srv loggedOut st i upd = snd (startSession_srv (store_qr st i upd) i)"
    using assms True by (simp add: connection_update_srv_def Let_def)
  have p1: "connection_update_p1 loggedOut rm_throws st i upd =
              (None, (store_qr st i upd)\<lparr>timers := timers (store_qr st i upd) @ [i]\<rparr>)"
    using assms True by (simp add: connection_update_p1_def Let_def)
  show ?thesis
    using True startSession_srv_dirs [of "store_qr st i upd" i]
    by (auto simp add: srv p1)
next
  case False
  have srv: "connection_update_srv loggedOut st i upd = forget (store_qr st i upd) i"
    using assms False by (simp add: connection_update_srv_def Let_def)
  show ?thesis
    using assms False
    by (simp add: srv forget_def connection_update_p1_def Let_def rmSync_def)
qed

text \<open>
  The amended property at a close with reason 428 and at a close with the logged-out
  reason 401, for \<open>shop-1\<close> after its first start.
\<close>

theorem close_event_outcomes_witness:
  "connection (close_update (Some 428)) = Some ''close'' \<and>
   sessionPath ''shop-1'' \<in> dirs (connection_update_srv 401 started ''shop-1'' (close_update (Some 428))) \<and>
   timers (snd (connection_update_p1 401 False started ''shop-1'' (close_update (Some 428)))) = [''shop-1''] \<and>
   sessions (snd (connection_update_p1 401 False started ''shop-1'' (close_update (Some 428)))) = sessions started \<and>
   dirs (snd (connection_update_p1 401 False started ''shop-1'' (close_update (Some 428)))) = dirs started \<and>
   sessions (snd (connection_update_p1 401 False started ''shop-1'' (close_update (Some 401)))) ''shop-1'' = None \<and>
   sessionPath ''shop-1'' \<notin> dirs (snd (connection_update_p1 401 False started ''shop-1'' (close_update (Some 401)))) \<and>
   dirs (connection_update_srv 401 started ''shop-1'' (close_update (Some 401))) = dirs started"
  using close_event_outcomes [of "close_update (Some 428)" 401 started "''shop-1''" False]
    close_event_outcomes [of "close_update (Some 401)" 401 started "''shop-1''" False]
  by (auto simp add: close_update_def started_eq sessionPath_def)

text \<open>
  When the timer of \<^verbatim>\<open>part_001\<close> fires, the start path runs for its tenant; it
  creates a transport object when the registered one reports \<^verbatim>\<open>ws.isClosed\<close> or
  none is registered.
\<close>

lemma timer_fires_p1_reconnects:
  assumes "timers st = i # rest"
  shows "\<exists>h. sessions (timer_fires_p1 st) i = Some h \<and> \<not> isClosed (socks (timer_fires_p1 st) h)"
  using assms startSession_p1_registers [of "st\<lparr>timers := rest\<rparr>" i]
  by (auto simp: timer_fires_p1_def)

lemma timer_fires_p1_new_transport:
  assumes "timers st = i # rest" and "live_ws st i = None"
  shows "sessions (timer_fires_p1 st) i = Some (nsocks st) \<and>
         nsocks (timer_fires_p1 st) = Suc (nsocks st) \<and>
         socks (timer_fires_p1 st) (nsocks st) = new_sock i"
proof -
  have "live_ws (st\<lparr>timers := rest\<rparr>) i = None"
    using assms(2) by (auto simp: live_ws_def split: option.splits if_splits)
  then show ?thesis
    using assms(1)
    by (simp add: timer_fires_p1_def startSession_p1_def startSession_begin_p1_def
        startSession_resume_def Let_def)
qed

section \<open>The pairing cache\<close>

text \<open>
  C4, the counterexample. \<open>shop-1\<close> is started, the transport resolves its identity
  and reports the connection open; an update that carries a pairing payload then
  arrives. The handler stores it: the tenant has an identity and a cached payload.
\<close>

theorem pairing_payload_stored_beside_identity:
  "identity
     (connection_update_srv 401
        (connection_update_srv 401 (transport_sets_user started 0 ''5511999:1@s.whatsapp.net'')
           ''shop-1'' \<lparr>connection = Some ''open'', statusCode = None, qr = None\<rparr>)
        ''shop-1'' \<lparr>connection = None, statusCode = None, qr = Some ''2@QR''\<rparr>) ''shop-1''
     = Some ''5511999:1@s.whatsapp.net'' \<and>
   qrCodes
     (connection_update_srv 401
        (connection_update_srv 401 (transport_sets_user started 0 ''5511999:1@s.whatsapp.net'')
           ''shop-1'' \<lparr>connection = Some ''open'', statusCode = None, qr = None\<rparr>)
        ''shop-1'' \<lparr>connection = None, statusCode = None, qr = Some ''2@QR''\<rparr>) ''shop-1''
     = Some ''2@QR''"
  by (simp add: started_eq transport_sets_user_def connection_update_srv_def store_qr_def
      identity_def Let_def)

text \<open>
  C4, as amended. The moment an update with \<^verbatim>\<open>connection === 'open'\<close> is handled, the
  tenant's pairing entry is gone, also when that update carries a pairing payload
  itself.
\<close>

theorem open_event_clears_pairing:
  assumes "connection upd = Some ''open''"
  shows "qrCodes (connection_update_srv loggedOut st i upd) i = None \<and>
         qrCodes (snd (connection_update_p1 loggedOut rm_throws st i upd)) i = None"
  using assms by (simp add: connection_update_srv_def connection_update_p1_def Let_def)

theorem open_event_clears_pairing_witness:
  "qrCodes (store_qr started ''shop-1'' \<lparr>connection = None, statusCode = None, qr = Some ''2@QR''\<rparr>)
     ''shop-1'' = Some ''2@QR'' \<and>
   qrCodes (connection_update_srv 401
       (store_qr started ''shop-1'' \<lparr>connection = None, statusCode = None, qr = Some ''2@QR''\<rparr>)
       ''shop-1'' \<lparr>connection = Some ''open'', statusCode = None, qr = Some ''3@QR''\<rparr>) ''shop-1'' = None \<and>
   qrCodes (snd (connection_update_p1 401 False
       (store_qr started ''shop-1'' \<lparr>connection = None, statusCode = None, qr = Some ''2@QR''\<rparr>)
       ''shop-1'' \<lparr>connection = Some ''open'', statusCode = None, qr = Some ''3@QR''\<rparr>)) ''shop-1'' = None"
  using open_event_clears_pairing
    [of "\<lparr>connection = Some ''open'', statusCode = None, qr = Some ''3@QR''\<rparr>" 401
      "store_qr started ''shop-1'' \<lparr>connection = None, statusCode = None, qr = Some ''2@QR''\<rparr>"
      "''shop-1''" False]
  by (simp add: store_qr_def)

section \<open>Sending text\<close>

text \<open>
  In \<^verbatim>\<open>server.ts\<close> an unknown tenant gets 404, a registered tenant without
  \<^verbatim>\<open>user\<close> gets 503, and in both cases the state, with the commands issued to the
  transport, is as before; a command is issued only for a tenant with \<^verbatim>\<open>user\<close>.
\<close>

lemma send_text_srv_unknown:
  assumes "js_or (body_instanceId req) (query_instanceId req) = Some t" and "sessions st t = None"
  shows "send_text_srv sent st req =
     (Inr (json 404 [(''error'', JBool True),
        (''message'', JStr ''Instancia nao encontrada ou desconectada'')]), st)"
  using assms by (simp add: send_text_srv_def)

lemma send_text_srv_not_connected:
  assumes "js_or (body_instanceId req) (query_instanceId req) = Some t" and "t \<noteq> []"
    and "sessions st t = Some h" and "user (socks st h) = None"
  shows "send_text_srv sent st req =
     (Inr (json 503 [(''error'', JBool True),
        (''message'', JStr ''Instancia existe mas nao esta conectada ao WhatsApp'')]), st)"
  using assms by (simp add: send_text_srv_def)

lemma send_text_srv_sends_only_connected:
  assumes "tcalls (snd (send_text_srv sent st req)) \<noteq> tcalls st"
  shows "\<exists>t h. js_or (body_instanceId req) (query_instanceId req) = Some t \<and>
           sessions st t = Some h \<and> user (socks st h) \<noteq> None"
  using assms
  by (auto simp: send_text_srv_def Let_def split: option.splits if_splits sum.splits)

text \<open>
  C3. The claim: a send request for a registered tenant that is not connected gets a
  503 and never reaches the transport's send command. \<^verbatim>\<open>part_001\<close> has no such
  test: for \<open>shop-1\<close>, registered and without \<^verbatim>\<open>user\<close>, the handler calls
  \<^verbatim>\<open>sendMessage\<close> and answers 500 when that call throws, 200 when it returns.
\<close>

theorem send_text_p1_reaches_transport_unconnected:
  "user (socks started 0) = None \<and>
   send_text_p1 (Inl TransportError) started
     \<lparr>query_instanceId = None, body_instanceId = Some ''shop-1'',
      body_phone = Some ''+55 (11) 999'', body_message = Some ''oi''\<rparr> =
   (Inr (json 500 [(''error'', JBool True)]),
    started\<lparr>tcalls := [SendMessage 0 ''5511999@s.whatsapp.net'' (Some ''oi'')]\<rparr>) \<and>
   send_text_p1 (Inr ''MSG1'') started
     \<lparr>query_instanceId = None, body_instanceId = Some ''shop-1'',
      body_phone = Some ''+55 (11) 999'', body_message = Some ''oi''\<rparr> =
   (Inr (json 200 [(''error'', JBool False), (''messageId'', JStr ''MSG1'')]),
    started\<lparr>tcalls := [SendMessage 0 ''5511999@s.whatsapp.net'' (Some ''oi'')]\<rparr>)"
  by (simp add: started_eq send_text_p1_def js_or_def truthy_def digits_def new_sock_def Let_def)

section \<open>Logout and reset\<close>

text \<open>
  C5, the counterexample. \<^verbatim>\<open>sock.logout()\<close> throws for the registered tenant
  \<open>shop-1\<close>: the exception leaves the handler, and registry entry and directory are
  still there.
\<close>

theorem logout_failure_skips_cleanup:
  "logout_srv True False started req_shop =
     (Inl TransportError, started\<lparr>tcalls := [Logout 0]\<rparr>) \<and>
   sessions (snd (logout_srv True False started req_shop)) ''shop-1'' = Some 0 \<and>
   sessionPath ''shop-1'' \<in> dirs (snd (logout_srv True False started req_shop))"
  by (simp add: started_eq req_shop_def logout_srv_def js_or_def truthy_def Let_def sessionPath_def)

text \<open>
  C5, as amended. For a logout request on a registered tenant whose
  \<^verbatim>\<open>sock.logout()\<close> returns, the registry entry and the pairing entry are removed;
  the directory is removed and success is reported, unless the removal of an existing
  directory fails, in which case that exception leaves the handler.
\<close>

theorem logout_cleanup_after_transport_logout:
  assumes "js_or (query_instanceId req) (body_instanceId req) = Some i" and "i \<noteq> []"
    and "sessions st i = Some h" and "\<not> logout_throws"
  shows "sessions (snd (logout_srv logout_throws rm_throws st req)) i = None \<and>
         qrCodes (snd (logout_srv logout_throws rm_throws st req)) i = None \<and>
         tcalls (snd (logout_srv logout_throws rm_throws st req)) = tcalls st @ [Logout h] \<and>
         (if rm_throws \<and> sessionPath i \<in> dirs st
          then fst (logout_srv logout_throws rm_throws st req) = Inl FsError
          else fst (logout_srv logout_throws rm_throws st req) =
                 Inr (json 200 [(''error'', JBool False), (''message'', JStr ''Desconectado'')]) \<and>
               sessionPath i \<notin> dirs (snd (logout_srv logout_throws rm_throws st req)))"
  using assms by (simp add: logout_srv_def Let_def forget_def rmSync_def)

theorem logout_cleanup_after_transport_logout_witness:
  "js_or (query_instanceId req_shop) (body_instanceId req_shop) = Some ''shop-1'' \<and>
   sessions started ''shop-1'' = Some 0 \<and>
   sessions (snd (logout_srv False False started req_shop)) ''shop-1'' = None \<and>
   qrCodes (snd (logout_srv False False started req_shop)) ''shop-1'' = None \<and>
   tcalls (snd (logout_srv False False started req_shop)) = [Logout 0] \<and>
   fst (logout_srv False False started req_shop) =
     Inr (json 200 [(''error'', JBool False), (''message'', JStr ''Desconectado'')]) \<and>
   sessionPath ''shop-1'' \<notin> dirs (snd (logout_srv False False started req_shop))"
  using logout_cleanup_after_transport_logout [of req_shop "''shop-1''" started 0 False False]
  by (simp add: req_shop_def js_or_def truthy_def started_eq)

text \<open>
  C6, the counterexample. In \<^verbatim>\<open>server.ts\<close> a reset of the registered tenant
  \<open>shop-1\<close> whose directory cannot be removed reports success and leaves the
  directory; and when \<^verbatim>\<open>sock.end\<close> throws, the exception leaves the handler with the
  registry entry in place.
\<close>

theorem reset_srv_keeps_credentials_or_escapes:
  "fst (reset_srv False True started req_shop) =
     Inr (json 200 [(''error'', JBool False),
       (''message'', JStr ''Instancia shop-1 resetada. Pode pedir novo QR Code agora.'')]) \<and>
   sessionPath ''shop-1'' \<in> dirs (snd (reset_srv False True started req_shop)) \<and>
   reset_srv True False started req_shop = (Inl TransportError, started\<lparr>tcalls := [End 0]\<rparr>) \<and>
   sessions (snd (reset_srv True False started req_shop)) ''shop-1'' = Some 0"
  by (simp add: started_eq req_shop_def reset_srv_def js_or_def truthy_def Let_def sessionPath_def
      rmSync_def forget_def)

text \<open>
  C6, as amended. For a non-empty tenant id, registered or never seen: the reset of
  \<^verbatim>\<open>server.ts\<close>, when the tenant is not registered or \<^verbatim>\<open>sock.end\<close> returns,
  reports success, leaves no registry entry, clears the pairing entry of a registered
  tenant, and leaves the directory exactly when it was there and its removal failed;
  the reset of \<^verbatim>\<open>part_001\<close>, whether \<^verbatim>\<open>end\<close> throws or not, when the directory is
  absent or its removal succeeds, reports success, leaves no registry entry, clears
  the pairing entry of a registered tenant and leaves no directory.
\<close>

theorem reset_outcomes:
  assumes "i \<noteq> []"
  shows "(js_or (query_instanceId req) (body_instanceId req) = Some i \<and>
          (sessions st i = None \<or> \<not> end_throws) \<longrightarrow>
            (\<exists>m. fst (reset_srv end_throws rm_throws st req) =
                   Inr (json 200 [(''error'', JBool False), (''message'', JStr m)])) \<and>
            sessions (snd (reset_srv end_throws rm_throws st req)) i = None \<and>
            qrCodes (snd (reset_srv end_throws rm_throws st req)) i =
              (if sessions st i = None then qrCodes st i else None) \<and>
            (sessionPath i \<in> dirs (snd (reset_srv end_throws rm_throws st req))) =
              (rm_throws \<and> sessionPath i \<in> dirs st)) \<and>
         (query_instanceId req = Some i \<and> (sessionPath i \<notin> dirs st \<or> \<not> rm_throws) \<longrightarrow>
            fst (reset_p1 end_throws rm_throws st req) =
              Inr (json 200 [(''message'', JStr ''Resetado com sucesso.'')]) \<and>
            sessions (snd (reset_p1 end_throws rm_throws st req)) i = None \<and>
            qrCodes (snd (reset_p1 end_throws rm_throws st req)) i =
              (if sessions st i = None then qrCodes st i else None) \<and>
            sessionPath i \<notin> dirs (snd (reset_p1 end_throws rm_throws st req)))"
  using assms
  by (auto simp: reset_srv_def reset_p1_def Let_def forget_def rmSync_def split: option.splits)

text \<open>
  The amended property for \<open>shop-1\<close> after its first start (with \<^verbatim>\<open>end\<close> throwing in
  \<^verbatim>\<open>part_001\<close>) and for the same id on a fresh process, where it was never seen.
\<close>

theorem reset_outcomes_witness:
  "sessions (snd (reset_srv False False started req_shop)) ''shop-1'' = None \<and>
   sessionPath ''shop-1'' \<notin> dirs (snd (reset_srv False False started req_shop)) \<and>
   fst (reset_p1 True False started req_shop) =
     Inr (json 200 [(''message'', JStr ''Resetado com sucesso.'')]) \<and>
   sessions (snd (reset_p1 True False started req_shop)) ''shop-1'' = None \<and>
   sessionPath ''shop-1'' \<notin> dirs (snd (reset_p1 True False started req_shop)) \<and>
   fst (reset_p1 True True init req_shop) =
     Inr (json 200 [(''message'', JStr ''Resetado com sucesso.'')]) \<and>
   sessions (snd (reset_srv True True init req_shop)) ''shop-1'' = None \<and>
   qrCodes (snd (reset_srv True True init req_shop)) ''shop-1'' = None \<and>
   sessionPath ''shop-1'' \<notin> dirs (snd (reset_srv True True init req_shop))"
  using reset_outcomes [of "''shop-1''" req_shop started False False]
    reset_outcomes [of "''shop-1''" req_shop started True False]
    reset_outcomes [of "''shop-1''" req_shop init True True]
  by (simp add: req_shop_def js_or_def truthy_def started_eq init_def sessionPath_def)

section \<open>Inbound messages\<close>

text \<open>
  The webhook calls a handler attempts are the payloads of the messages it lets
  through, in order, whatever calls fail.
\<close>

lemma posts_loop_srv:
  "posts (loop_srv url instanceId s fails ms w) =
     posts w @ map (payload_srv instanceId s) (filter (\<lambda>m. \<not> fromMe m \<and> truthy url) ms)"
  by (induction ms arbitrary: w) (simp_all add: axios_post_def)

lemma posts_loop_p1:
  "posts (loop_p1 url instanceId s fails ms w) =
     posts w @ map (payload_p1 instanceId s) (filter (\<lambda>m. \<not> fromMe m \<and> truthy url) ms)"
  by (induction ms arbitrary: w) (simp_all add: axios_post_def)

lemma posts_loop_p0:
  "posts (loop_p0 url instanceId s fails ms w) =
     posts w @ map (payload_p0 instanceId s)
       (filter (\<lambda>m. \<not> fromMe m \<and> truthy url \<and> truthy (msgContent m)) ms)"
  by (induction ms arbitrary: w) (simp_all add: axios_post_def payload_p0_def)

lemma posts_upsert_srv:
  "posts (messages_upsert_srv url instanceId s fails ev w) =
     posts w @ map (payload_srv instanceId s) (eligible url ev)"
  by (simp add: messages_upsert_srv_def posts_loop_srv eligible_def)

lemma posts_upsert_p1:
  "posts (messages_upsert_p1 url instanceId s fails ev w) =
     posts w @ map (payload_p1 instanceId s) (eligible url ev)"
  by (simp add: messages_upsert_p1_def posts_loop_p1 eligible_def)

lemma posts_upsert_p0:
  "posts (messages_upsert_p0 url instanceId s fails ev w) =
     posts w @ map (payload_p0 instanceId s) (filter (\<lambda>m. truthy (msgContent m)) (eligible url ev))"
  by (simp add: messages_upsert_p0_def posts_loop_p0 eligible_def conj_commute)

text \<open>In \<^verbatim>\<open>part_000\<close> every payload posted carries a text.\<close>

lemma upsert_p0_posts_have_text:
  assumes "p \<in> set (drop (length (posts w)) (posts (messages_upsert_p0 url instanceId s fails ev w)))"
  shows "truthy (p_msgContent p)"
  using assms by (auto simp: posts_upsert_p0 payload_p0_def)

text \<open>
  C7. The claim: a message without a text body is dropped before dispatch.
  \<^verbatim>\<open>part_000\<close> does that; \<^verbatim>\<open>server.ts\<close> has no such test and posts the payload of
  an image message with \<^verbatim>\<open>msgContent\<close> undefined.
\<close>

theorem upsert_srv_posts_without_text:
  "msgContent m_image = None \<and>
   posts (messages_upsert_srv (Some ''http://hook'') ''shop-1'' (new_sock ''shop-1'') (\<lambda>n. False)
      \<lparr>messages = [m_image], utype = ''notify''\<rparr> empty_outbox) =
   [\<lparr>p_event = ''webhookReceived'', p_instanceId = ''shop-1'', p_connectedPhone = None,
     p_messageId = Some ''M4'', p_sender = Some ''5511999'', p_rawId = None,
     p_msgContent = None\<rparr>] \<and>
   posts (messages_upsert_p0 (Some ''http://hook'') ''shop-1'' (new_sock ''shop-1'') (\<lambda>n. False)
      \<lparr>messages = [m_image], utype = ''notify''\<rparr> empty_outbox) = []"
  by (simp add: messages_upsert_srv_def messages_upsert_p0_def axios_post_def payload_srv_def
      payload_p0_def truthy_def msgContent_def js_or_def connectedPhone_def new_sock_def
      split0_takeWhile m_image_def empty_outbox_def)

text \<open>
  C8. For every sequence of inbound events, each with the tenant and transport object
  of its handler, and whatever webhook calls fail: the handlers of \<^verbatim>\<open>server.ts\<close>
  and of \<^verbatim>\<open>part_001\<close> run to their end and attempt the call for every message they
  let through, of every event, in order. A failed call stops neither the rest of its
  event nor the events after it.
\<close>

theorem webhook_failure_never_blocks:
  "posts (deliver_srv url fails evs w) =
     posts w @ concat (map (\<lambda>(instanceId, s, ev).
        map (payload_srv instanceId s) (eligible url ev)) evs) \<and>
   posts (deliver_p1 url fails evs w) =
     posts w @ concat (map (\<lambda>(instanceId, s, ev).
        map (payload_p1 instanceId s) (eligible url ev)) evs)"
proof
  show "posts (deliver_srv url fails evs w) =
     posts w @ concat (map (\<lambda>(instanceId, s, ev).
        map (payload_srv instanceId s) (eligible url ev)) evs)"
    by (induction evs arbitrary: w) (auto simp: posts_upsert_srv)
  show "posts (deliver_p1 url fails evs w) =
     posts w @ concat (map (\<lambda>(instanceId, s, ev).
        map (payload_p1 instanceId s) (eligible url ev)) evs)"
    by (induction evs arbitrary: w) (auto simp: posts_upsert_p1)
qed

text \<open>
  Two events, for \<open>shop-1\<close> and \<open>shop-2\<close>, with every webhook call failing: both
  messages are attempted, and \<^verbatim>\<open>server.ts\<close> logs two errors.
\<close>

theorem webhook_failure_never_blocks_witness:
  "map p_instanceId (posts (deliver_srv (Some ''http://hook'') (\<lambda>n. True)
      [(''shop-1'', new_sock ''shop-1'', \<lparr>messages = [m_text], utype = ''notify''\<rparr>),
       (''shop-2'', new_sock ''shop-2'', \<lparr>messages = [m_lid], utype = ''notify''\<rparr>)]
      empty_outbox)) = [''shop-1'', ''shop-2''] \<and>
   map p_instanceId (posts (deliver_p1 (Some ''http://hook'') (\<lambda>n. True)
      [(''shop-1'', new_sock ''shop-1'', \<lparr>messages = [m_text], utype = ''notify''\<rparr>),
       (''shop-2'', new_sock ''shop-2'', \<lparr>messages = [m_lid], utype = ''notify''\<rparr>)]
      empty_outbox)) = [''shop-1'', ''shop-2''] \<and>
   console_errors (deliver_srv (Some ''http://hook'') (\<lambda>n. True)
      [(''shop-1'', new_sock ''shop-1'', \<lparr>messages = [m_text], utype = ''notify''\<rparr>),
       (''shop-2'', new_sock ''shop-2'', \<lparr>messages = [m_lid], utype = ''notify''\<rparr>)]
      empty_outbox) = 2"
  using webhook_failure_never_blocks [of "Some ''http://hook''" "\<lambda>n. True"
      "[(''shop-1'', new_sock ''shop-1'', \<lparr>messages = [m_text], utype = ''notify''\<rparr>),
        (''shop-2'', new_sock ''shop-2'', \<lparr>messages = [m_lid], utype = ''notify''\<rparr>)]"
      empty_outbox]
  by (simp add: eligible_def truthy_def m_text_def m_lid_def empty_outbox_def payload_srv_def
      payload_p1_def messages_upsert_srv_def axios_post_def)

text \<open>
  C9. For every message, the sender that \<^verbatim>\<open>part_000\<close> puts in the payload is the
  part before \<open>@\<close> of the participant when the primary address contains \<open>@lid\<close> and a
  participant is there, and the part before \<open>@\<close> of the primary address in every
  other case; and the payloads an event posts carry these senders.
\<close>

theorem sender_normalisation:
  "p_sender (payload_p0 instanceId s m) = Some (sender_identity m) \<and>
   map p_sender (drop (length (posts w)) (posts (messages_upsert_p0 url instanceId s fails ev w))) =
     map (\<lambda>m. Some (sender_identity m)) (filter (\<lambda>m. truthy (msgContent m)) (eligible url ev))"
proof -
  have "senderNumber m' = sender_identity m'" for m'
    by (simp add: senderNumber_def sender_identity_def local_part_def split0_takeWhile truthy_def
        split: option.splits)
  then show ?thesis
    by (simp add: posts_upsert_p0 payload_p0_def comp_def)
qed

theorem sender_normalisation_witness:
  "map p_sender (posts (messages_upsert_p0 (Some ''http://hook'') ''shop-1'' (new_sock ''shop-1'')
      (\<lambda>n. False) \<lparr>messages = [m_lid, m_text], utype = ''notify''\<rparr> empty_outbox)) =
     [Some ''5511777'', Some ''5511999'']"
  using sender_normalisation [of "''shop-1''" "new_sock ''shop-1''" m_lid empty_outbox
      "Some ''http://hook''" "\<lambda>n. False" "\<lparr>messages = [m_lid, m_text], utype = ''notify''\<rparr>"]
  by (simp add: eligible_def truthy_def m_text_def m_lid_def empty_outbox_def msgContent_def
      js_or_def sender_identity_def local_part_def)

text \<open>
  C10. For every message with \<^verbatim>\<open>key.fromMe\<close> set, whatever the webhook URL is: an
  event made of that message alone posts nothing, and within an event the calls
  attempted are those of the event without it.
\<close>

theorem own_messages_not_dispatched:
  assumes "fromMe m"
  shows "posts (messages_upsert_srv url instanceId s fails (ev\<lparr>messages := [m]\<rparr>) w) = posts w \<and>
         posts (messages_upsert_p1 url instanceId s fails (ev\<lparr>messages := [m]\<rparr>) w) = posts w \<and>
         posts (messages_upsert_srv url instanceId s fails (ev\<lparr>messages := pre @ m # suf\<rparr>) w) =
           posts (messages_upsert_srv url instanceId s fails (ev\<lparr>messages := pre @ suf\<rparr>) w) \<and>
         posts (messages_upsert_p1 url instanceId s fails (ev\<lparr>messages := pre @ m # suf\<rparr>) w) =
           posts (messages_upsert_p1 url instanceId s fails (ev\<lparr>messages := pre @ suf\<rparr>) w)"
  using assms by (simp add: posts_upsert_srv posts_upsert_p1 eligible_def)

theorem own_messages_not_dispatched_witness:
  "fromMe m_own \<and>
   posts (messages_upsert_srv (Some ''http://hook'') ''shop-1'' (new_sock ''shop-1'') (\<lambda>n. False)
      \<lparr>messages = [m_own], utype = ''notify''\<rparr> empty_outbox) = [] \<and>
   posts (messages_upsert_p1 (Some ''http://hook'') ''shop-1'' (new_sock ''shop-1'') (\<lambda>n. False)
      \<lparr>messages = [m_own], utype = ''notify''\<rparr> empty_outbox) = [] \<and>
   map p_messageId (posts (messages_upsert_srv (Some ''http://hook'') ''shop-1'' (new_sock ''shop-1'')
      (\<lambda>n. False) \<lparr>messages = [m_text, m_own, m_lid], utype = ''notify''\<rparr> empty_outbox)) =
     [Some ''M1'', Some ''M3'']"
  using own_messages_not_dispatched [of m_own "Some ''http://hook''" "''shop-1''"
      "new_sock ''shop-1''" "\<lambda>n. False" "\<lparr>messages = [], utype = ''notify''\<rparr>" empty_outbox
      "[m_text]" "[m_lid]"]
  by (simp add: m_own_def m_text_def m_lid_def empty_outbox_def messages_upsert_srv_def
      axios_post_def payload_srv_def truthy_def)

end
